theory Spec2Isabelle
  imports Complex_Main "HOL-Library.Sublist" "HOL-Library.AList"
begin

section \<open>Python values and strings\<close>

text \<open>
  Python \<open>str\<close> values are modelled as HOL strings; a character stands for a code point
  below 256. \<open>s.startswith(p)\<close> is \<open>prefix p s\<close> and \<open>p in s\<close> is \<open>sublist p s\<close>.
\<close>

definition py_isspace :: "char \<Rightarrow> bool" where
  "py_isspace c =
     (let n = (of_char c :: nat)
      in (9 \<le> n \<and> n \<le> 13) \<or> (28 \<le> n \<and> n \<le> 32) \<or> n = 133 \<or> n = 160)"

definition strip :: "string \<Rightarrow> string" where
  "strip s = rev (dropWhile py_isspace (rev (dropWhile py_isspace s)))"

definition lower_char :: "char \<Rightarrow> char" where
  "lower_char c =
     (let n = (of_char c :: nat)
      in if (65 \<le> n \<and> n \<le> 90) \<or> (192 \<le> n \<and> n \<le> 222 \<and> n \<noteq> 215)
         then char_of (n + 32) else c)"

definition lower :: "string \<Rightarrow> string" where
  "lower s = map lower_char s"

fun join :: "string \<Rightarrow> string list \<Rightarrow> string" where
  "join sep [] = []"
| "join sep [x] = x"
| "join sep (x # y # ys) = x @ sep @ join sep (y # ys)"

text \<open>
  Numbers as \<open>json.loads\<close> delivers them: an unbounded integer, a finite float (read as the
  real number it denotes), the two infinities and NaN. Python compares an \<open>int\<close> with a
  \<open>float\<close> by value; every comparison with NaN is false.
\<close>

datatype pynum = PyInt int | PyFloat real | PyInf | PyNegInf | PyNaN

fun py_key :: "pynum \<Rightarrow> (int \<times> real) option" where
  "py_key (PyInt i) = Some (0, of_int i)"
| "py_key (PyFloat r) = Some (0, r)"
| "py_key PyInf = Some (1, 0)"
| "py_key PyNegInf = Some (- 1, 0)"
| "py_key PyNaN = None"

definition py_lt :: "pynum \<Rightarrow> pynum \<Rightarrow> bool" where
  "py_lt a b =
     (case (py_key a, py_key b) of
        (Some (i, x), Some (j, y)) \<Rightarrow> i < j \<or> (i = j \<and> x < y)
      | _ \<Rightarrow> False)"

definition py_gt :: "pynum \<Rightarrow> pynum \<Rightarrow> bool" where
  "py_gt a b = py_lt b a"

definition py_eq :: "pynum \<Rightarrow> pynum \<Rightarrow> bool" where
  "py_eq a b =
     (case (py_key a, py_key b) of
        (Some (i, x), Some (j, y)) \<Rightarrow> i = j \<and> x = y
      | _ \<Rightarrow> False)"

definition py_le :: "pynum \<Rightarrow> pynum \<Rightarrow> bool" where
  "py_le a b = (py_lt a b \<or> py_eq a b)"

section \<open>Rules engine\<close>

text \<open>Source: \<^verbatim>\<open>backend/app/services/rules_engine.py\<close>.\<close>

text \<open>
  A telemetry sample is the dict the rules engine receives; only its numeric metrics are
  read. \<open>telemetry.get(k, d)\<close> is \<open>dict_get\<close>.
\<close>

type_synonym telemetry = "string \<rightharpoonup> pynum"

definition dict_get :: "('k \<rightharpoonup> 'v) \<Rightarrow> 'k \<Rightarrow> 'v \<Rightarrow> 'v" where
  "dict_get d k dflt = (case d k of None \<Rightarrow> dflt | Some v \<Rightarrow> v)"

record rules_engine =
  max_pressure :: pynum
  critical_concentration :: pynum
  min_src_concentration :: pynum
  max_dst_concentration :: pynum

text \<open>
  \<open>RulesEngine.__init__\<close>: the two arguments are the values of
  \<open>float(os.getenv("MAX_PRESSURE_BAR", "6.0"))\<close> and
  \<open>float(os.getenv("CRITICAL_CONCENTRATION", "500.0"))\<close>; the other two thresholds are
  constants of the source.
\<close>

definition RulesEngine :: "pynum \<Rightarrow> pynum \<Rightarrow> rules_engine" where
  "RulesEngine env_max_pressure env_critical_concentration =
     \<lparr> max_pressure = env_max_pressure,
       critical_concentration = env_critical_concentration,
       min_src_concentration = PyFloat 10.0,
       max_dst_concentration = PyFloat 400.0 \<rparr>"

definition default_engine :: rules_engine where
  "default_engine = RulesEngine (PyFloat 6.0) (PyFloat 500.0)"

text \<open>
  The f-strings of the source print numbers with Python's \<open>str\<close>; that printer is the
  parameter \<open>fmt\<close> of the two evaluation operations.
\<close>

definition validate_telemetry ::
  "(pynum \<Rightarrow> string) \<Rightarrow> rules_engine \<Rightarrow> telemetry \<Rightarrow> bool \<times> string list" where
  "validate_telemetry fmt self telemetry =
     (let violations = [];
          p1 = dict_get telemetry ''p1'' (PyInt 0);
          p2 = dict_get telemetry ''p2'' (PyInt 0);
          violations =
            (if py_gt p1 (max_pressure self)
             then violations @ [''Pressure sensor 1 exceeds limit: '' @ fmt p1 @ '' > ''
                                 @ fmt (max_pressure self) @ '' bar'']
             else violations);
          violations =
            (if py_gt p2 (max_pressure self)
             then violations @ [''Pressure sensor 2 exceeds limit: '' @ fmt p2 @ '' > ''
                                 @ fmt (max_pressure self) @ '' bar'']
             else violations);
          c_src = dict_get telemetry ''c_src'' (PyInt 0);
          c_dst = dict_get telemetry ''c_dst'' (PyInt 0);
          violations =
            (if py_gt c_src (critical_concentration self)
             then violations @ [''Source concentration critical: '' @ fmt c_src @ '' > ''
                                 @ fmt (critical_concentration self) @ '' units'']
             else violations);
          violations =
            (if py_gt c_dst (critical_concentration self)
             then violations @ [''Destination concentration critical: '' @ fmt c_dst @ '' > ''
                                 @ fmt (critical_concentration self) @ '' units'']
             else violations);
          is_safe = (length violations = 0)
      in (is_safe, violations))"

definition can_open_valve ::
  "(pynum \<Rightarrow> string) \<Rightarrow> rules_engine \<Rightarrow> telemetry \<Rightarrow> bool \<times> string" where
  "can_open_valve fmt self telemetry =
     (if py_eq (dict_get telemetry ''em'' (PyInt 0)) (PyInt 1)
      then (False, ''System in emergency mode'')
      else
        (case validate_telemetry fmt self telemetry of
           (is_safe, violations) \<Rightarrow>
             if \<not> is_safe
             then (False, ''Safety violations: '' @ join ''; '' violations)
             else
               (let c_src = dict_get telemetry ''c_src'' (PyInt 0)
                in if py_lt c_src (min_src_concentration self)
                   then (False, ''Source concentration too low: '' @ fmt c_src @ '' < ''
                                  @ fmt (min_src_concentration self))
                   else
                     (let c_dst = dict_get telemetry ''c_dst'' (PyInt 0)
                      in if py_gt c_dst (max_dst_concentration self)
                         then (False, ''Destination concentration too high: '' @ fmt c_dst
                                        @ '' > '' @ fmt (max_dst_concentration self))
                         else (True, ''All checks passed'')))))"

definition get_alert_priority :: "string \<Rightarrow> string" where
  "get_alert_priority violation_type =
     (let critical_keywords = [''pressure'', ''critical'', ''emergency'']
      in if list_ex (\<lambda>keyword. sublist (lower keyword) (lower violation_type)) critical_keywords
         then ''CRITICAL'' else ''HIGH'')"

text \<open>The samples of \<open>tests/test_rules_engine.py\<close>, and one with a high destination
  concentration.\<close>

definition sample_safe :: telemetry where
  "sample_safe = [''p1'' \<mapsto> PyFloat 3.5, ''p2'' \<mapsto> PyFloat 3.2, ''c_src'' \<mapsto> PyFloat 150.0,
                  ''c_dst'' \<mapsto> PyFloat 250.0, ''em'' \<mapsto> PyInt 0]"

definition sample_high_pressure :: telemetry where
  "sample_high_pressure = sample_safe(''p1'' \<mapsto> PyFloat 7.5)"

definition sample_emergency :: telemetry where
  "sample_emergency = sample_safe(''em'' \<mapsto> PyInt 1)"

definition sample_low_source :: telemetry where
  "sample_low_source = sample_safe(''c_src'' \<mapsto> PyFloat 5.0)"

definition sample_high_destination :: telemetry where
  "sample_high_destination = sample_safe(''c_dst'' \<mapsto> PyFloat 450.0)"

section \<open>Serial manager\<close>

text \<open>Source: \<^verbatim>\<open>backend/app/serial_manager.py\<close>.\<close>

text \<open>
  The pyserial connection as the manager uses it: whether it is open, and what
  \<open>write\<close> has sent so far, oldest first.
\<close>

record serial_port =
  is_open :: bool
  written :: "string list"

record serial_manager =
  serial_conn :: "serial_port option"

definition is_connected :: "serial_manager \<Rightarrow> bool" where
  "is_connected self = (case serial_conn self of None \<Rightarrow> False | Some conn \<Rightarrow> is_open conn)"

text \<open>
  What the device side does during one call of \<open>send_command\<close>. The waiting loop runs
  until the timeout, so it makes finitely many rounds; \<open>polls\<close> lists what each round
  finds: nothing waiting (\<open>in_waiting\<close> is 0), a line (the text \<open>readline().decode(...)\<close>
  returns, before \<open>strip\<close>), or an exception of the port. \<open>write_raises\<close> says whether
  \<open>write\<close> raises.
\<close>

datatype poll = Idle | Line string | ReadError

record device =
  write_raises :: bool
  polls :: "poll list"

text \<open>The \<open>while\<close> loop of \<open>send_command\<close> and the two returns after it.\<close>

fun wait_response :: "poll list \<Rightarrow> string list \<Rightarrow> string option" where
  "wait_response [] lines_received =
     (if lines_received \<noteq> [] then Some (last lines_received) else None)"
| "wait_response (Idle # rest) lines_received = wait_response rest lines_received"
| "wait_response (ReadError # rest) lines_received = None"
| "wait_response (Line raw # rest) lines_received =
     (let response = strip raw
      in if response \<noteq> []
         then (let lines_received = lines_received @ [response]
               in if \<not> prefix ''COMMAND_RECEIVED:'' response
                  then Some response
                  else wait_response rest lines_received)
         else wait_response rest lines_received)"

definition send_command ::
  "serial_manager \<Rightarrow> string \<Rightarrow> device \<Rightarrow> string option \<times> serial_manager" where
  "send_command self command dev =
     (if \<not> is_connected self then (None, self)
      else
        (case serial_conn self of
           None \<Rightarrow> (None, self)
         | Some conn \<Rightarrow>
             if write_raises dev then (None, self)
             else
               (let cmd_line = command @ [CHR 0x0A];
                    self = self\<lparr>serial_conn := Some (conn\<lparr>written := written conn @ [cmd_line]\<rparr>)\<rparr>
                in (wait_response (polls dev) [], self))))"

text \<open>
  The claim's reading of \<open>send_command\<close> on the lines received: the first line that is
  not a \<open>COMMAND_RECEIVED\<close> echo, else the last echo, else nothing.
\<close>

definition send_command_spec :: "string list \<Rightarrow> string option" where
  "send_command_spec received =
     (case filter (\<lambda>l. \<not> prefix ''COMMAND_RECEIVED:'' l) received of
        r # _ \<Rightarrow> Some r
      | [] \<Rightarrow> (if received = [] then None else Some (last received)))"

text \<open>The lines a device sends during one call, in order.\<close>

fun lines_of :: "poll list \<Rightarrow> string list" where
  "lines_of [] = []"
| "lines_of (Line raw # rest) = raw # lines_of rest"
| "lines_of (_ # rest) = lines_of rest"

text \<open>
  JSON values as \<open>json.loads\<close> builds them; an object is a \<open>dict\<close>, kept as the list of its
  items in insertion order.
\<close>

datatype json =
  JNull | JBool bool | JNum pynum | JStr string | JArr "json list" | JObj "(string \<times> json) list"

text \<open>\<open>s.replace(old, new)\<close>: every occurrence of \<open>old\<close>, left to right, without overlap.\<close>

fun replace_nonempty :: "string \<Rightarrow> string \<Rightarrow> string \<Rightarrow> string" where
  "replace_nonempty old new [] = []"
| "replace_nonempty old new (c # cs) =
     (if prefix old (c # cs)
      then new @ replace_nonempty old new (drop (length old - 1) cs)
      else c # replace_nonempty old new cs)"

definition replace :: "string \<Rightarrow> string \<Rightarrow> string \<Rightarrow> string" where
  "replace old new s =
     (if old = [] then new @ concat (map (\<lambda>c. c # new) s) else replace_nonempty old new s)"

text \<open>
  \<open>parse_telemetry\<close>. The parameter \<open>json_loads\<close> is the library's parser, \<open>None\<close> when it
  raises; \<open>now\<close> is \<open>int(time.time())\<close>. On a value that is not a dict the test
  \<open>'t' not in data\<close> or the assignment \<open>data['t'] = ...\<close> raises \<open>TypeError\<close>, which the
  last handler turns into \<open>None\<close>; a list holding \<open>"t"\<close> and a string containing \<open>t\<close>
  pass the test and are returned.
\<close>

definition parse_telemetry :: "(string \<Rightarrow> json option) \<Rightarrow> int \<Rightarrow> string \<Rightarrow> json option" where
  "parse_telemetry json_loads now line =
     (if \<not> prefix ''TELEMETRY:'' line then None
      else
        (let json_str = strip (replace ''TELEMETRY:'' [] line)
         in case json_loads json_str of
              None \<Rightarrow> None
            | Some data \<Rightarrow>
                (case data of
                   JObj items \<Rightarrow>
                     if ''t'' \<notin> fst ` set items
                     then Some (JObj (AList.update ''t'' (JNum (PyInt now)) items))
                     else Some data
                 | JArr xs \<Rightarrow> if JStr ''t'' \<notin> set xs then None else Some data
                 | JStr s \<Rightarrow> if \<not> sublist ''t'' s then None else Some data
                 | _ \<Rightarrow> None)))"

text \<open>
  The claim's reading of the parser's input: the line with the prefix taken off.
\<close>

definition strip_prefix_spec :: "string \<Rightarrow> string" where
  "strip_prefix_spec line = strip (drop (length ''TELEMETRY:'') line)"

text \<open>
  A transcript of line contents as it reaches the waiting loop: the device ends each line
  with a newline, and each round of the loop reads one line.
\<close>

definition arriving :: "string list \<Rightarrow> poll list" where
  "arriving transcript = map (\<lambda>l. Line (l @ [CHR 0x0A])) transcript"

text \<open>A manager whose port is open and has sent nothing, and one without a port.\<close>

definition open_port :: serial_manager where
  "open_port = \<lparr> serial_conn = Some \<lparr> is_open = True, written = [] \<rparr> \<rparr>"

definition no_port :: serial_manager where
  "no_port = \<lparr> serial_conn = None \<rparr>"

text \<open>A device that answers with the given line contents and whose port never fails.\<close>

definition answering :: "string list \<Rightarrow> device" where
  "answering transcript = \<lparr> write_raises = False, polls = arriving transcript \<rparr>"

text \<open>
  A device that idles, echoes the command, sends an empty line and then the answer,
  each line ended by carriage return and newline.
\<close>

definition noisy_device :: device where
  "noisy_device =
     \<lparr> write_raises = False,
       polls = [Idle, Line (''COMMAND_RECEIVED:OPEN'' @ [CHR 0x0D, CHR 0x0A]), Idle,
                Line [CHR 0x0D, CHR 0x0A], Line (''VALVE_OPENED'' @ [CHR 0x0D, CHR 0x0A])] \<rparr>"

section \<open>Valve control endpoints\<close>

text \<open>Source: \<^verbatim>\<open>backend/app/api/valve.py\<close>.\<close>

text \<open>
  What an endpoint leaves behind: the serial manager, the rows \<open>log_operation\<close> adds to
  the database and the valve events it broadcasts (the timestamps are left out).
\<close>

record valve_operation =
  command :: string
  issuer_user :: string
  result :: string
  message :: string

record world =
  serial :: serial_manager
  operations :: "valve_operation list"
  valve_events :: "valve_operation list"

text \<open>
  An endpoint returns a \<open>ValveCommandResponse\<close> or raises; \<open>Unhandled\<close> is an exception
  that no handler of the endpoint catches.
\<close>

datatype http_result =
  HTTPException nat string
| ValveCommandResponse bool string "string option"
| Unhandled string

definition log_operation :: "world \<Rightarrow> string \<Rightarrow> string \<Rightarrow> string \<Rightarrow> string \<Rightarrow> world" where
  "log_operation w cmd user res msg =
     (let operation = \<lparr> command = cmd, issuer_user = user, result = res, message = msg \<rparr>
      in w\<lparr> operations := operations w @ [operation],
            valve_events := valve_events w @ [operation] \<rparr>)"

text \<open>Python's \<open>not response\<close> for an optional string.\<close>

definition not_response :: "string option \<Rightarrow> bool" where
  "not_response response = (case response of None \<Rightarrow> True | Some r \<Rightarrow> r = [])"

definition open_valve :: "string \<Rightarrow> device \<Rightarrow> world \<Rightarrow> http_result \<times> world" where
  "open_valve current_user dev w =
     (if \<not> is_connected (serial w)
      then (HTTPException 503 ''Arduino not connected'',
            log_operation w ''OPEN'' current_user ''FAILED'' ''Arduino not connected'')
      else
        (case send_command (serial w) ''OPEN'' dev of
           (response, sm) \<Rightarrow>
             (let w = w\<lparr>serial := sm\<rparr>
              in if not_response response
                 then (HTTPException 503 ''No response from Arduino'',
                       log_operation w ''OPEN'' current_user ''FAILED'' ''No response from Arduino'')
                 else
                   (let response = the response
                    in if sublist ''VALVE_OPENED'' response
                       then (ValveCommandResponse True ''Valve opened successfully'' (Some ''OPEN''),
                             log_operation w ''OPEN'' current_user ''SUCCESS''
                               ''Valve opened successfully'')
                       else if sublist ''ERROR'' response \<or> sublist ''emergency'' (lower response)
                       then (ValveCommandResponse False response None,
                             log_operation w ''OPEN'' current_user ''REJECTED'' response)
                       else (ValveCommandResponse False (''Unexpected response: '' @ response) None,
                             log_operation w ''OPEN'' current_user ''UNKNOWN'' response)))))"

definition close_valve :: "string \<Rightarrow> device \<Rightarrow> world \<Rightarrow> http_result \<times> world" where
  "close_valve current_user dev w =
     (if \<not> is_connected (serial w)
      then (HTTPException 503 ''Arduino not connected'',
            log_operation w ''CLOSE'' current_user ''FAILED'' ''Arduino not connected'')
      else
        (case send_command (serial w) ''CLOSE'' dev of
           (response, sm) \<Rightarrow>
             (let w = w\<lparr>serial := sm\<rparr>
              in if not_response response
                 then (HTTPException 503 ''No response from Arduino'',
                       log_operation w ''CLOSE'' current_user ''FAILED'' ''No response from Arduino'')
                 else
                   (let response = the response
                    in if sublist ''VALVE_CLOSED'' response \<or> sublist ''ALREADY_CLOSED'' response
                       then (ValveCommandResponse True ''Valve closed successfully'' (Some ''CLOSED''),
                             log_operation w ''CLOSE'' current_user ''SUCCESS''
                               ''Valve closed successfully'')
                       else (ValveCommandResponse False (''Unexpected response: '' @ response) None,
                             log_operation w ''CLOSE'' current_user ''UNKNOWN'' response)))))"

text \<open>
  \<open>force_open_valve\<close>: after a \<open>VALVE_OPENED\<close> answer the operation is logged and
  \<open>alert_service.create_alert\<close> is called with \<open>priority="HIGH"\<close>, a plain \<open>str\<close>;
  \<open>create_alert\<close> reads \<open>priority.value\<close>, which raises \<open>AttributeError\<close>.
\<close>

definition force_open_valve :: "string \<Rightarrow> device \<Rightarrow> world \<Rightarrow> http_result \<times> world" where
  "force_open_valve current_user dev w =
     (if \<not> is_connected (serial w)
      then (HTTPException 503 ''Arduino not connected'',
            log_operation w ''FORCE_OPEN'' current_user ''FAILED'' ''Arduino not connected'')
      else
        (case send_command (serial w) ''FORCE_OPEN'' dev of
           (response, sm) \<Rightarrow>
             (let w = w\<lparr>serial := sm\<rparr>
              in if not_response response
                 then (HTTPException 503 ''No response from Arduino'',
                       log_operation w ''FORCE_OPEN'' current_user ''FAILED''
                         ''No response from Arduino'')
                 else
                   (let response = the response
                    in if sublist ''VALVE_OPENED'' response
                       then (Unhandled ''AttributeError'',
                             log_operation w ''FORCE_OPEN'' current_user ''SUCCESS''
                               ''Valve force-opened'')
                       else (ValveCommandResponse False response None,
                             log_operation w ''FORCE_OPEN'' current_user ''FAILED'' response)))))"

definition reset_emergency :: "string \<Rightarrow> device \<Rightarrow> world \<Rightarrow> http_result \<times> world" where
  "reset_emergency current_user dev w =
     (if \<not> is_connected (serial w)
      then (HTTPException 503 ''Arduino not connected'',
            log_operation w ''RESET_EMERGENCY'' current_user ''FAILED'' ''Arduino not connected'')
      else
        (case send_command (serial w) ''RESET_EMERGENCY'' dev of
           (response, sm) \<Rightarrow>
             (let w = w\<lparr>serial := sm\<rparr>
              in if not_response response
                 then (HTTPException 503 ''No response from Arduino'',
                       log_operation w ''RESET_EMERGENCY'' current_user ''FAILED''
                         ''No response from Arduino'')
                 else
                   (let response = the response
                    in if sublist ''reset successfully'' (lower response) \<or> sublist ''EVENT'' response
                       then (ValveCommandResponse True ''Emergency mode reset successfully'' None,
                             log_operation w ''RESET_EMERGENCY'' current_user ''SUCCESS''
                               ''Emergency mode reset'')
                       else (ValveCommandResponse False response None,
                             log_operation w ''RESET_EMERGENCY'' current_user ''UNKNOWN''
                               response)))))"

definition enable_test_mode :: "string \<Rightarrow> device \<Rightarrow> world \<Rightarrow> http_result \<times> world" where
  "enable_test_mode current_user dev w =
     (if \<not> is_connected (serial w)
      then (HTTPException 503 ''Arduino not connected'', w)
      else
        (case send_command (serial w) ''TEST_MODE_ON'' dev of
           (response, sm) \<Rightarrow>
             (let w = w\<lparr>serial := sm\<rparr>
              in if not_response response
                 then (HTTPException 503 ''No response from Arduino'', w)
                 else (ValveCommandResponse True ''Test mode enabled - using mock sensor values'' None,
                       log_operation w ''TEST_MODE_ON'' current_user ''SUCCESS''
                         ''Test mode enabled''))))"

definition disable_test_mode :: "string \<Rightarrow> device \<Rightarrow> world \<Rightarrow> http_result \<times> world" where
  "disable_test_mode current_user dev w =
     (if \<not> is_connected (serial w)
      then (HTTPException 503 ''Arduino not connected'', w)
      else
        (case send_command (serial w) ''TEST_MODE_OFF'' dev of
           (response, sm) \<Rightarrow>
             (let w = w\<lparr>serial := sm\<rparr>
              in if not_response response
                 then (HTTPException 503 ''No response from Arduino'', w)
                 else (ValveCommandResponse True ''Test mode disabled - using real sensor values'' None,
                       log_operation w ''TEST_MODE_OFF'' current_user ''SUCCESS''
                         ''Test mode disabled''))))"

text \<open>The six command endpoints.\<close>

definition endpoints :: "(string \<Rightarrow> device \<Rightarrow> world \<Rightarrow> http_result \<times> world) list" where
  "endpoints =
     [open_valve, close_valve, force_open_valve, reset_emergency, enable_test_mode,
      disable_test_mode]"


definition offline_world :: world where
  "offline_world = \<lparr> serial = no_port, operations = [], valve_events = [] \<rparr>"

section \<open>WebSocket manager\<close>

text \<open>Source: \<^verbatim>\<open>backend/app/ws_manager.py\<close>.\<close>

text \<open>
  The manager holds the set of registered connections. What \<open>connection.send_json\<close>
  does during one broadcast is the parameter \<open>send\<close>: it delivers, or raises
  \<open>WebSocketDisconnect\<close>, or raises another exception.
\<close>

record 'c connection_manager =
  active_connections :: "'c set"

datatype send_outcome = Sent | RaisedDisconnect | RaisedError

definition connect :: "'c \<Rightarrow> 'c connection_manager \<Rightarrow> 'c connection_manager" where
  "connect websocket self = self\<lparr>active_connections := insert websocket (active_connections self)\<rparr>"

definition disconnect :: "'c \<Rightarrow> 'c connection_manager \<Rightarrow> 'c connection_manager" where
  "disconnect websocket self = self\<lparr>active_connections := active_connections self - {websocket}\<rparr>"

text \<open>
  The \<open>for\<close> loop of \<open>broadcast\<close> over the copied set: it carries the set \<open>disconnected\<close>
  and, for the model, the list of connections the message has been delivered to.
\<close>

fun sweep ::
  "('c \<Rightarrow> send_outcome) \<Rightarrow> 'c list \<Rightarrow> 'c set \<Rightarrow> 'c list \<Rightarrow> 'c set \<times> 'c list" where
  "sweep send [] disconnected delivered = (disconnected, delivered)"
| "sweep send (connection # rest) disconnected delivered =
     (case send connection of
        Sent \<Rightarrow> sweep send rest disconnected (delivered @ [connection])
      | RaisedDisconnect \<Rightarrow> sweep send rest (insert connection disconnected) delivered
      | RaisedError \<Rightarrow> sweep send rest (insert connection disconnected) delivered)"

text \<open>
  \<open>broadcast\<close>. Python iterates a set in an order of its own; \<open>connections\<close> is the copied
  set in that order. The result is the manager afterwards and the connections that got
  the message.
\<close>

definition broadcast ::
  "('c \<Rightarrow> send_outcome) \<Rightarrow> 'c list \<Rightarrow> 'c connection_manager
     \<Rightarrow> 'c connection_manager \<times> 'c list" where
  "broadcast send connections self =
     (if active_connections self = {} then (self, [])
      else
        (case sweep send connections {} [] of
           (disconnected, delivered) \<Rightarrow>
             if disconnected \<noteq> {}
             then (self\<lparr>active_connections := active_connections self - disconnected\<rparr>,
                   delivered)
             else (self, delivered)))"

definition get_connection_count :: "'c connection_manager \<Rightarrow> nat" where
  "get_connection_count self = card (active_connections self)"

text \<open>Three registered connections, the second of which fails on send.\<close>

definition three_connections :: "nat connection_manager" where
  "three_connections = connect 3 (connect 2 (connect 1 \<lparr> active_connections = {} \<rparr>))"

definition second_fails :: "nat \<Rightarrow> send_outcome" where
  "second_fails c = (if c = 2 then RaisedError else Sent)"

section \<open>Properties of the rules engine\<close>

lemmas engine_defs = validate_telemetry_def can_open_valve_def dict_get_def Let_def
  py_gt_def py_lt_def py_eq_def py_le_def RulesEngine_def default_engine_def

lemmas sample_defs = sample_safe_def sample_high_pressure_def sample_emergency_def
  sample_low_source_def sample_high_destination_def

lemma py_le_not_gt: "py_le a b \<Longrightarrow> \<not> py_gt a b"
  by (auto simp: py_le_def py_gt_def py_lt_def py_eq_def split: option.splits prod.splits)

lemma validate_telemetry_list:
  "snd (validate_telemetry fmt E t) =
     map snd (filter fst
       [(py_gt (dict_get t ''p1'' (PyInt 0)) (max_pressure E),
           ''Pressure sensor 1 exceeds limit: '' @ fmt (dict_get t ''p1'' (PyInt 0)) @ '' > ''
             @ fmt (max_pressure E) @ '' bar''),
        (py_gt (dict_get t ''p2'' (PyInt 0)) (max_pressure E),
           ''Pressure sensor 2 exceeds limit: '' @ fmt (dict_get t ''p2'' (PyInt 0)) @ '' > ''
             @ fmt (max_pressure E) @ '' bar''),
        (py_gt (dict_get t ''c_src'' (PyInt 0)) (critical_concentration E),
           ''Source concentration critical: '' @ fmt (dict_get t ''c_src'' (PyInt 0)) @ '' > ''
             @ fmt (critical_concentration E) @ '' units''),
        (py_gt (dict_get t ''c_dst'' (PyInt 0)) (critical_concentration E),
           ''Destination concentration critical: '' @ fmt (dict_get t ''c_dst'' (PyInt 0))
             @ '' > '' @ fmt (critical_concentration E) @ '' units'')])"
  by (simp add: validate_telemetry_def Let_def)

lemma validate_telemetry_safe_iff:
  "fst (validate_telemetry fmt E t) = (snd (validate_telemetry fmt E t) = [])"
  by (simp add: validate_telemetry_def Let_def)

text \<open>
  Claim C1. \<open>validate_telemetry\<close> reports safe exactly when its violation list is empty.
  The list holds one string per breached check, the checks being \<open>p1\<close> and \<open>p2\<close> against
  the maximum pressure and \<open>c_src\<close> and \<open>c_dst\<close> against the critical concentration, each
  on its own and in this order. When all four metrics are at most their thresholds the
  verdict is safe with no violation. When \<open>p1\<close> exceeds the maximum pressure the verdict is
  unsafe, the first entry is the one of sensor 1, exactly one entry names sensor 1, and
  the pressure entries are two when \<open>p2\<close> breaches as well and one otherwise.
\<close>

theorem validate_telemetry_verdict:
  "fst (validate_telemetry fmt E t) = (snd (validate_telemetry fmt E t) = [])
   \<and> snd (validate_telemetry fmt E t) =
     map snd (filter fst
       [(py_gt (dict_get t ''p1'' (PyInt 0)) (max_pressure E),
           ''Pressure sensor 1 exceeds limit: '' @ fmt (dict_get t ''p1'' (PyInt 0)) @ '' > ''
             @ fmt (max_pressure E) @ '' bar''),
        (py_gt (dict_get t ''p2'' (PyInt 0)) (max_pressure E),
           ''Pressure sensor 2 exceeds limit: '' @ fmt (dict_get t ''p2'' (PyInt 0)) @ '' > ''
             @ fmt (max_pressure E) @ '' bar''),
        (py_gt (dict_get t ''c_src'' (PyInt 0)) (critical_concentration E),
           ''Source concentration critical: '' @ fmt (dict_get t ''c_src'' (PyInt 0)) @ '' > ''
             @ fmt (critical_concentration E) @ '' units''),
        (py_gt (dict_get t ''c_dst'' (PyInt 0)) (critical_concentration E),
           ''Destination concentration critical: '' @ fmt (dict_get t ''c_dst'' (PyInt 0))
             @ '' > '' @ fmt (critical_concentration E) @ '' units'')])
   \<and> (py_le (dict_get t ''p1'' (PyInt 0)) (max_pressure E)
        \<and> py_le (dict_get t ''p2'' (PyInt 0)) (max_pressure E)
        \<and> py_le (dict_get t ''c_src'' (PyInt 0)) (critical_concentration E)
        \<and> py_le (dict_get t ''c_dst'' (PyInt 0)) (critical_concentration E)
        \<longrightarrow> validate_telemetry fmt E t = (True, []))
   \<and> (py_gt (dict_get t ''p1'' (PyInt 0)) (max_pressure E)
        \<longrightarrow> \<not> fst (validate_telemetry fmt E t)
          \<and> hd (snd (validate_telemetry fmt E t)) =
              ''Pressure sensor 1 exceeds limit: '' @ fmt (dict_get t ''p1'' (PyInt 0)) @ '' > ''
                @ fmt (max_pressure E) @ '' bar''
          \<and> length (filter (prefix ''Pressure sensor 1'') (snd (validate_telemetry fmt E t))) = 1
          \<and> length (filter (prefix ''Pressure sensor'') (snd (validate_telemetry fmt E t))) =
              (if py_gt (dict_get t ''p2'' (PyInt 0)) (max_pressure E) then 2 else 1))"
proof (intro conjI impI)
  show "fst (validate_telemetry fmt E t) = (snd (validate_telemetry fmt E t) = [])"
    by (rule validate_telemetry_safe_iff)
next
  show "snd (validate_telemetry fmt E t) = map snd (filter fst
       [(py_gt (dict_get t ''p1'' (PyInt 0)) (max_pressure E),
           ''Pressure sensor 1 exceeds limit: '' @ fmt (dict_get t ''p1'' (PyInt 0)) @ '' > ''
             @ fmt (max_pressure E) @ '' bar''),
        (py_gt (dict_get t ''p2'' (PyInt 0)) (max_pressure E),
           ''Pressure sensor 2 exceeds limit: '' @ fmt (dict_get t ''p2'' (PyInt 0)) @ '' > ''
             @ fmt (max_pressure E) @ '' bar''),
        (py_gt (dict_get t ''c_src'' (PyInt 0)) (critical_concentration E),
           ''Source concentration critical: '' @ fmt (dict_get t ''c_src'' (PyInt 0)) @ '' > ''
             @ fmt (critical_concentration E) @ '' units''),
        (py_gt (dict_get t ''c_dst'' (PyInt 0)) (critical_concentration E),
           ''Destination concentration critical: '' @ fmt (dict_get t ''c_dst'' (PyInt 0))
             @ '' > '' @ fmt (critical_concentration E) @ '' units'')])"
    by (rule validate_telemetry_list)
next
  assume "py_le (dict_get t ''p1'' (PyInt 0)) (max_pressure E)
        \<and> py_le (dict_get t ''p2'' (PyInt 0)) (max_pressure E)
        \<and> py_le (dict_get t ''c_src'' (PyInt 0)) (critical_concentration E)
        \<and> py_le (dict_get t ''c_dst'' (PyInt 0)) (critical_concentration E)"
  then show "validate_telemetry fmt E t = (True, [])"
    by (simp add: validate_telemetry_def Let_def py_le_not_gt)
next
  assume g: "py_gt (dict_get t ''p1'' (PyInt 0)) (max_pressure E)"
  then show "\<not> fst (validate_telemetry fmt E t)"
    by (simp add: validate_telemetry_def Let_def)
  from g show "hd (snd (validate_telemetry fmt E t)) =
              ''Pressure sensor 1 exceeds limit: '' @ fmt (dict_get t ''p1'' (PyInt 0)) @ '' > ''
                @ fmt (max_pressure E) @ '' bar''"
    by (simp add: validate_telemetry_list)
  from g show "length (filter (prefix ''Pressure sensor 1'') (snd (validate_telemetry fmt E t))) = 1"
    by (simp add: validate_telemetry_list)
  from g show "length (filter (prefix ''Pressure sensor'') (snd (validate_telemetry fmt E t))) =
              (if py_gt (dict_get t ''p2'' (PyInt 0)) (max_pressure E) then 2 else 1)"
    by (simp add: validate_telemetry_list)
qed

theorem validate_telemetry_verdict_witness:
  "(\<forall>fmt. validate_telemetry fmt default_engine sample_safe = (True, []))
   \<and> (\<forall>fmt. \<not> fst (validate_telemetry fmt default_engine sample_high_pressure)
        \<and> length (filter (prefix ''Pressure sensor 1'')
                    (snd (validate_telemetry fmt default_engine sample_high_pressure))) = 1
        \<and> length (filter (prefix ''Pressure sensor'')
                    (snd (validate_telemetry fmt default_engine sample_high_pressure))) = 1)"
proof (intro conjI allI)
  fix fmt :: "pynum \<Rightarrow> string"
  have h: "py_le (dict_get sample_safe ''p1'' (PyInt 0)) (max_pressure default_engine)
        \<and> py_le (dict_get sample_safe ''p2'' (PyInt 0)) (max_pressure default_engine)
        \<and> py_le (dict_get sample_safe ''c_src'' (PyInt 0)) (critical_concentration default_engine)
        \<and> py_le (dict_get sample_safe ''c_dst'' (PyInt 0)) (critical_concentration default_engine)"
    by (simp add: sample_defs dict_get_def default_engine_def RulesEngine_def py_le_def py_lt_def)
  with validate_telemetry_verdict [of fmt default_engine sample_safe]
  show "validate_telemetry fmt default_engine sample_safe = (True, [])"
    by blast
next
  fix fmt :: "pynum \<Rightarrow> string"
  have g: "py_gt (dict_get sample_high_pressure ''p1'' (PyInt 0)) (max_pressure default_engine)"
    by (simp add: sample_defs dict_get_def default_engine_def RulesEngine_def py_gt_def py_lt_def)
  have n: "\<not> py_gt (dict_get sample_high_pressure ''p2'' (PyInt 0)) (max_pressure default_engine)"
    by (simp add: sample_defs dict_get_def default_engine_def RulesEngine_def py_gt_def py_lt_def)
  note v = validate_telemetry_verdict [of fmt default_engine sample_high_pressure]
  from v g show "\<not> fst (validate_telemetry fmt default_engine sample_high_pressure)"
    by blast
  from v g show "length (filter (prefix ''Pressure sensor 1'')
                    (snd (validate_telemetry fmt default_engine sample_high_pressure))) = 1"
    by blast
  from v g have "length (filter (prefix ''Pressure sensor'')
                    (snd (validate_telemetry fmt default_engine sample_high_pressure))) =
      (if py_gt (dict_get sample_high_pressure ''p2'' (PyInt 0)) (max_pressure default_engine)
       then 2 else 1)"
    by blast
  with n show "length (filter (prefix ''Pressure sensor'')
                    (snd (validate_telemetry fmt default_engine sample_high_pressure))) = 1"
    by simp
qed

text \<open>
  Claim C2. \<open>can_open_valve\<close> runs its checks in a fixed order and returns the reason of the
  first one that fails: the emergency flag (\<open>em == 1\<close>; the reason mentions emergency
  mode), then the verdict of \<open>validate_telemetry\<close> (the reason carries the violations
  joined by \<open>"; "\<close>), then the source concentration below the minimum (the reason names
  both values), then the destination concentration above the maximum; when all pass it
  allows with the reason \<open>All checks passed\<close>. With the emergency flag set it refuses
  whatever the other fields hold, and it allows the sample \<open>em=0, p1=3.5, p2=3.2,
  c_src=150.0, c_dst=250.0\<close> under the default thresholds.
\<close>

theorem can_open_valve_first_failing_check:
  "(py_eq (dict_get t ''em'' (PyInt 0)) (PyInt 1)
      \<longrightarrow> can_open_valve fmt E t = (False, ''System in emergency mode'')
        \<and> sublist ''emergency mode'' (snd (can_open_valve fmt E t)))
   \<and> (\<not> py_eq (dict_get t ''em'' (PyInt 0)) (PyInt 1)
      \<and> \<not> fst (validate_telemetry fmt E t)
      \<longrightarrow> can_open_valve fmt E t =
            (False, ''Safety violations: '' @ join ''; '' (snd (validate_telemetry fmt E t)))
        \<and> sublist (join ''; '' (snd (validate_telemetry fmt E t))) (snd (can_open_valve fmt E t)))
   \<and> (\<not> py_eq (dict_get t ''em'' (PyInt 0)) (PyInt 1)
      \<and> fst (validate_telemetry fmt E t)
      \<and> py_lt (dict_get t ''c_src'' (PyInt 0)) (min_src_concentration E)
      \<longrightarrow> can_open_valve fmt E t =
            (False, ''Source concentration too low: '' @ fmt (dict_get t ''c_src'' (PyInt 0))
                      @ '' < '' @ fmt (min_src_concentration E))
        \<and> sublist (fmt (dict_get t ''c_src'' (PyInt 0))) (snd (can_open_valve fmt E t))
        \<and> sublist (fmt (min_src_concentration E)) (snd (can_open_valve fmt E t)))
   \<and> (\<not> py_eq (dict_get t ''em'' (PyInt 0)) (PyInt 1)
      \<and> fst (validate_telemetry fmt E t)
      \<and> \<not> py_lt (dict_get t ''c_src'' (PyInt 0)) (min_src_concentration E)
      \<and> py_gt (dict_get t ''c_dst'' (PyInt 0)) (max_dst_concentration E)
      \<longrightarrow> can_open_valve fmt E t =
            (False, ''Destination concentration too high: '' @ fmt (dict_get t ''c_dst'' (PyInt 0))
                      @ '' > '' @ fmt (max_dst_concentration E)))
   \<and> (\<not> py_eq (dict_get t ''em'' (PyInt 0)) (PyInt 1)
      \<and> fst (validate_telemetry fmt E t)
      \<and> \<not> py_lt (dict_get t ''c_src'' (PyInt 0)) (min_src_concentration E)
      \<and> \<not> py_gt (dict_get t ''c_dst'' (PyInt 0)) (max_dst_concentration E)
      \<longrightarrow> can_open_valve fmt E t = (True, ''All checks passed''))
   \<and> can_open_valve fmt default_engine
        [''em'' \<mapsto> PyInt 0, ''p1'' \<mapsto> PyFloat 3.5, ''p2'' \<mapsto> PyFloat 3.2,
         ''c_src'' \<mapsto> PyFloat 150.0, ''c_dst'' \<mapsto> PyFloat 250.0]
       = (True, ''All checks passed'')"
proof (intro conjI impI)
  assume "py_eq (dict_get t ''em'' (PyInt 0)) (PyInt 1)"
  then show e: "can_open_valve fmt E t = (False, ''System in emergency mode'')"
    by (simp add: can_open_valve_def)
  have "''System in emergency mode'' = ''System in '' @ ''emergency mode'' @ []" by simp
  then have "sublist ''emergency mode'' ''System in emergency mode''"
    unfolding sublist_def by blast
  then show "sublist ''emergency mode'' (snd (can_open_valve fmt E t))"
    unfolding e snd_conv .
next
  assume a: "\<not> py_eq (dict_get t ''em'' (PyInt 0)) (PyInt 1) \<and> \<not> fst (validate_telemetry fmt E t)"
  then show e: "can_open_valve fmt E t =
            (False, ''Safety violations: '' @ join ''; '' (snd (validate_telemetry fmt E t)))"
    by (cases "validate_telemetry fmt E t") (simp add: can_open_valve_def)
  show "sublist (join ''; '' (snd (validate_telemetry fmt E t))) (snd (can_open_valve fmt E t))"
    unfolding e snd_conv by (rule sublist_append_leftI)
next
  assume a: "\<not> py_eq (dict_get t ''em'' (PyInt 0)) (PyInt 1)
      \<and> fst (validate_telemetry fmt E t)
      \<and> py_lt (dict_get t ''c_src'' (PyInt 0)) (min_src_concentration E)"
  then show e: "can_open_valve fmt E t =
            (False, ''Source concentration too low: '' @ fmt (dict_get t ''c_src'' (PyInt 0))
                      @ '' < '' @ fmt (min_src_concentration E))"
    by (cases "validate_telemetry fmt E t") (simp add: can_open_valve_def Let_def)
  show "sublist (fmt (dict_get t ''c_src'' (PyInt 0))) (snd (can_open_valve fmt E t))"
    unfolding e snd_conv by (rule sublist_appendI)
  have "sublist (fmt (min_src_concentration E))
          ((''Source concentration too low: '' @ fmt (dict_get t ''c_src'' (PyInt 0)) @ '' < '')
             @ fmt (min_src_concentration E))"
    by (rule sublist_append_leftI)
  then show "sublist (fmt (min_src_concentration E)) (snd (can_open_valve fmt E t))"
    unfolding e snd_conv by (simp only: append_assoc)
next
  assume "\<not> py_eq (dict_get t ''em'' (PyInt 0)) (PyInt 1)
      \<and> fst (validate_telemetry fmt E t)
      \<and> \<not> py_lt (dict_get t ''c_src'' (PyInt 0)) (min_src_concentration E)
      \<and> py_gt (dict_get t ''c_dst'' (PyInt 0)) (max_dst_concentration E)"
  then show "can_open_valve fmt E t =
            (False, ''Destination concentration too high: '' @ fmt (dict_get t ''c_dst'' (PyInt 0))
                      @ '' > '' @ fmt (max_dst_concentration E))"
    by (cases "validate_telemetry fmt E t") (simp add: can_open_valve_def Let_def)
next
  assume "\<not> py_eq (dict_get t ''em'' (PyInt 0)) (PyInt 1)
      \<and> fst (validate_telemetry fmt E t)
      \<and> \<not> py_lt (dict_get t ''c_src'' (PyInt 0)) (min_src_concentration E)
      \<and> \<not> py_gt (dict_get t ''c_dst'' (PyInt 0)) (max_dst_concentration E)"
  then show "can_open_valve fmt E t = (True, ''All checks passed'')"
    by (cases "validate_telemetry fmt E t") (simp add: can_open_valve_def Let_def)
next
  show "can_open_valve fmt default_engine
        [''em'' \<mapsto> PyInt 0, ''p1'' \<mapsto> PyFloat 3.5, ''p2'' \<mapsto> PyFloat 3.2,
         ''c_src'' \<mapsto> PyFloat 150.0, ''c_dst'' \<mapsto> PyFloat 250.0]
       = (True, ''All checks passed'')"
    by (simp add: engine_defs)
qed

theorem can_open_valve_first_failing_check_witness:
  "(\<forall>fmt. can_open_valve fmt default_engine sample_emergency
            = (False, ''System in emergency mode''))
   \<and> (\<forall>fmt. can_open_valve fmt default_engine sample_high_pressure
            = (False, ''Safety violations: ''
                 @ join ''; '' (snd (validate_telemetry fmt default_engine sample_high_pressure))))
   \<and> (\<forall>fmt. can_open_valve fmt default_engine sample_low_source
            = (False, ''Source concentration too low: '' @ fmt (PyFloat 5.0) @ '' < ''
                 @ fmt (PyFloat 10.0)))
   \<and> (\<forall>fmt. can_open_valve fmt default_engine sample_high_destination
            = (False, ''Destination concentration too high: '' @ fmt (PyFloat 450.0) @ '' > ''
                 @ fmt (PyFloat 400.0)))
   \<and> (\<forall>fmt. can_open_valve fmt default_engine sample_safe = (True, ''All checks passed''))"
proof (intro conjI allI)
  fix fmt :: "pynum \<Rightarrow> string"
  have "py_eq (dict_get sample_emergency ''em'' (PyInt 0)) (PyInt 1)"
    by (simp add: sample_defs dict_get_def py_eq_def)
  with can_open_valve_first_failing_check [of sample_emergency fmt default_engine]
  show "can_open_valve fmt default_engine sample_emergency = (False, ''System in emergency mode'')"
    by blast
next
  fix fmt :: "pynum \<Rightarrow> string"
  have "\<not> py_eq (dict_get sample_high_pressure ''em'' (PyInt 0)) (PyInt 1)
        \<and> \<not> fst (validate_telemetry fmt default_engine sample_high_pressure)"
    by (simp add: sample_defs engine_defs)
  with can_open_valve_first_failing_check [of sample_high_pressure fmt default_engine]
  show "can_open_valve fmt default_engine sample_high_pressure
            = (False, ''Safety violations: ''
                 @ join ''; '' (snd (validate_telemetry fmt default_engine sample_high_pressure)))"
    by blast
next
  fix fmt :: "pynum \<Rightarrow> string"
  have "\<not> py_eq (dict_get sample_low_source ''em'' (PyInt 0)) (PyInt 1)
        \<and> fst (validate_telemetry fmt default_engine sample_low_source)
        \<and> py_lt (dict_get sample_low_source ''c_src'' (PyInt 0))
             (min_src_concentration default_engine)"
    by (simp add: sample_defs engine_defs)
  with can_open_valve_first_failing_check [of sample_low_source fmt default_engine]
  have "can_open_valve fmt default_engine sample_low_source =
          (False, ''Source concentration too low: ''
             @ fmt (dict_get sample_low_source ''c_src'' (PyInt 0))
             @ '' < '' @ fmt (min_src_concentration default_engine))"
    by blast
  then show "can_open_valve fmt default_engine sample_low_source
            = (False, ''Source concentration too low: '' @ fmt (PyFloat 5.0) @ '' < ''
                 @ fmt (PyFloat 10.0))"
    by (simp add: sample_defs dict_get_def default_engine_def RulesEngine_def)
next
  fix fmt :: "pynum \<Rightarrow> string"
  have "\<not> py_eq (dict_get sample_high_destination ''em'' (PyInt 0)) (PyInt 1)
        \<and> fst (validate_telemetry fmt default_engine sample_high_destination)
        \<and> \<not> py_lt (dict_get sample_high_destination ''c_src'' (PyInt 0))
             (min_src_concentration default_engine)
        \<and> py_gt (dict_get sample_high_destination ''c_dst'' (PyInt 0))
             (max_dst_concentration default_engine)"
    by (simp add: sample_defs engine_defs)
  with can_open_valve_first_failing_check [of sample_high_destination fmt default_engine]
  have "can_open_valve fmt default_engine sample_high_destination =
          (False, ''Destination concentration too high: ''
             @ fmt (dict_get sample_high_destination ''c_dst'' (PyInt 0))
             @ '' > '' @ fmt (max_dst_concentration default_engine))"
    by blast
  then show "can_open_valve fmt default_engine sample_high_destination
            = (False, ''Destination concentration too high: '' @ fmt (PyFloat 450.0) @ '' > ''
                 @ fmt (PyFloat 400.0))"
    by (simp add: sample_defs dict_get_def default_engine_def RulesEngine_def)
next
  fix fmt :: "pynum \<Rightarrow> string"
  have "\<not> py_eq (dict_get sample_safe ''em'' (PyInt 0)) (PyInt 1)
        \<and> fst (validate_telemetry fmt default_engine sample_safe)
        \<and> \<not> py_lt (dict_get sample_safe ''c_src'' (PyInt 0))
             (min_src_concentration default_engine)
        \<and> \<not> py_gt (dict_get sample_safe ''c_dst'' (PyInt 0))
             (max_dst_concentration default_engine)"
    by (simp add: sample_defs engine_defs)
  with can_open_valve_first_failing_check [of sample_safe fmt default_engine]
  show "can_open_valve fmt default_engine sample_safe = (True, ''All checks passed'')"
    by blast
qed

lemma sublist_map_iff:
  "sublist kw (map f v) \<longleftrightarrow> (\<exists>ps u ss. v = ps @ u @ ss \<and> map f u = kw)"
proof
  assume "sublist kw (map f v)"
  then obtain ps' ss' where "map f v = ps' @ kw @ ss'" by (auto simp: sublist_def)
  then obtain ps r where r: "v = ps @ r" "map f r = kw @ ss'"
    by (metis map_eq_append_conv)
  then obtain u ss where "r = u @ ss" "map f u = kw"
    by (metis map_eq_append_conv)
  with r show "\<exists>ps u ss. v = ps @ u @ ss \<and> map f u = kw"
    by blast
next
  assume "\<exists>ps u ss. v = ps @ u @ ss \<and> map f u = kw"
  then obtain ps u ss where "v = ps @ u @ ss" "map f u = kw" by blast
  then have "map f v = map f ps @ kw @ map f ss" by simp
  then show "sublist kw (map f v)" unfolding sublist_def by blast
qed

lemma lower_keywords:
  "lower ''pressure'' = ''pressure''" "lower ''critical'' = ''critical''"
  "lower ''emergency'' = ''emergency''"
  by (simp_all add: lower_def lower_char_def)

text \<open>
  Claim C8. \<open>get_alert_priority\<close> returns \<open>CRITICAL\<close> exactly when the violation type has a
  substring that, lowered, is one of \<open>pressure\<close>, \<open>critical\<close>, \<open>emergency\<close>, and \<open>HIGH\<close>
  for every other string.
\<close>

theorem get_alert_priority_critical_iff:
  "(get_alert_priority v = ''CRITICAL'') =
     (\<exists>kw \<in> {''pressure'', ''critical'', ''emergency''}.
        \<exists>ps u ss. v = ps @ u @ ss \<and> lower u = kw)
   \<and> (get_alert_priority v \<noteq> ''CRITICAL'' \<longrightarrow> get_alert_priority v = ''HIGH'')"
  by (simp add: get_alert_priority_def lower_keywords)
     (auto simp add: lower_def sublist_map_iff)

theorem get_alert_priority_critical_iff_witness:
  "get_alert_priority ''PRESSURE_high'' = ''CRITICAL''
   \<and> get_alert_priority ''emergency_triggered'' = ''CRITICAL''
   \<and> get_alert_priority ''valve_timeout'' = ''HIGH''"
proof (intro conjI)
  have "lower ''PRESSURE'' = ''pressure''"
    by code_simp
  then have "''PRESSURE_high'' = [] @ ''PRESSURE'' @ ''_high'' \<and> lower ''PRESSURE'' = ''pressure''"
    by simp
  with get_alert_priority_critical_iff [of "''PRESSURE_high''"]
  show "get_alert_priority ''PRESSURE_high'' = ''CRITICAL''"
    by blast
  have "''emergency_triggered'' = [] @ ''emergency'' @ ''_triggered''
        \<and> lower ''emergency'' = ''emergency''"
    by (simp add: lower_def lower_char_def)
  with get_alert_priority_critical_iff [of "''emergency_triggered''"]
  show "get_alert_priority ''emergency_triggered'' = ''CRITICAL''"
    by blast
  have "get_alert_priority ''valve_timeout'' \<noteq> ''CRITICAL''"
    by code_simp
  with get_alert_priority_critical_iff [of "''valve_timeout''"]
  show "get_alert_priority ''valve_timeout'' = ''HIGH''"
    by blast
qed

lemma dict_get_filled:
  "dict_get (\<lambda>k. Some (dict_get t k (PyInt 0))) k' (PyInt 0) = dict_get t k' (PyInt 0)"
  by (simp add: dict_get_def)

lemma validate_telemetry_filled:
  "validate_telemetry fmt E (\<lambda>k. Some (dict_get t k (PyInt 0))) = validate_telemetry fmt E t"
  unfolding validate_telemetry_def dict_get_filled ..

lemma can_open_valve_filled:
  "can_open_valve fmt E (\<lambda>k. Some (dict_get t k (PyInt 0))) = can_open_valve fmt E t"
  unfolding can_open_valve_def validate_telemetry_filled dict_get_filled ..

lemma py_eq_one: "py_eq v (PyInt 1) = (v = PyInt 1 \<or> v = PyFloat 1)"
  by (cases v) (auto simp: py_eq_def)

lemma can_open_valve_emergency_iff:
  "(can_open_valve fmt E t = (False, ''System in emergency mode''))
     = py_eq (dict_get t ''em'' (PyInt 0)) (PyInt 1)"
  by (cases "validate_telemetry fmt E t") (simp add: can_open_valve_def Let_def)

lemma validate_telemetry_empty:
  "\<not> py_gt (PyInt 0) m \<Longrightarrow> \<not> py_gt (PyInt 0) c \<Longrightarrow>
     validate_telemetry fmt (RulesEngine m c) Map.empty = (True, [])"
  by (simp add: validate_telemetry_def dict_get_def RulesEngine_def)

lemma can_open_valve_empty:
  assumes "\<not> py_gt (PyInt 0) m" "\<not> py_gt (PyInt 0) c"
  shows "can_open_valve fmt (RulesEngine m c) Map.empty =
     (False, ''Source concentration too low: '' @ fmt (PyInt 0) @ '' < '' @ fmt (PyFloat 10))"
proof -
  have lt: "py_lt (PyInt 0) (PyFloat 10)" by (simp add: py_lt_def)
  have ne: "\<not> py_eq (PyInt 0) (PyInt 1)" by (simp add: py_eq_def)
  have g: "dict_get Map.empty k (PyInt 0) = PyInt 0" for k :: string
    by (simp add: dict_get_def)
  have m: "min_src_concentration (RulesEngine m c) = PyFloat 10" by (simp add: RulesEngine_def)
  show ?thesis
    unfolding can_open_valve_def validate_telemetry_empty[OF assms] g m Let_def
    using lt ne by simp
qed

text \<open>
  Claim C9. Both evaluation operations read an absent metric as the value 0: each gives
  the same result on a sample and on that sample with every absent key set to 0. Under
  thresholds that 0 does not exceed (the defaults among them) \<open>validate_telemetry\<close> reports
  the sample with no field at all as safe with no violation, and \<open>can_open_valve\<close> refuses
  it because the source concentration 0 is below the minimum 10.0. The emergency check
  refuses exactly when the field \<open>em\<close> is present and equal to 1, so an absent \<open>em\<close> is not
  an emergency.
\<close>

theorem missing_metrics_read_as_zero:
  "validate_telemetry fmt E (\<lambda>k. Some (dict_get t k (PyInt 0))) = validate_telemetry fmt E t
   \<and> can_open_valve fmt E (\<lambda>k. Some (dict_get t k (PyInt 0))) = can_open_valve fmt E t
   \<and> (\<not> py_gt (PyInt 0) m \<and> \<not> py_gt (PyInt 0) c \<longrightarrow>
        validate_telemetry fmt (RulesEngine m c) Map.empty = (True, [])
        \<and> can_open_valve fmt (RulesEngine m c) Map.empty =
            (False, ''Source concentration too low: '' @ fmt (PyInt 0) @ '' < ''
                      @ fmt (PyFloat 10)))
   \<and> validate_telemetry fmt default_engine Map.empty = (True, [])
   \<and> can_open_valve fmt default_engine Map.empty =
        (False, ''Source concentration too low: '' @ fmt (PyInt 0) @ '' < '' @ fmt (PyFloat 10))
   \<and> (can_open_valve fmt E t = (False, ''System in emergency mode''))
       = (\<exists>v. t ''em'' = Some v \<and> (v = PyInt 1 \<or> v = PyFloat 1))
   \<and> (t ''em'' = None \<longrightarrow> can_open_valve fmt E t \<noteq> (False, ''System in emergency mode''))"
proof (intro conjI impI)
  show "validate_telemetry fmt E (\<lambda>k. Some (dict_get t k (PyInt 0))) = validate_telemetry fmt E t"
    by (rule validate_telemetry_filled)
  show "can_open_valve fmt E (\<lambda>k. Some (dict_get t k (PyInt 0))) = can_open_valve fmt E t"
    by (rule can_open_valve_filled)
  have d: "\<not> py_gt (PyInt 0) (PyFloat 6.0)" "\<not> py_gt (PyInt 0) (PyFloat 500.0)"
    by (simp_all add: py_gt_def py_lt_def)
  show "validate_telemetry fmt default_engine Map.empty = (True, [])"
    unfolding default_engine_def by (rule validate_telemetry_empty[OF d])
  show "can_open_valve fmt default_engine Map.empty =
        (False, ''Source concentration too low: '' @ fmt (PyInt 0) @ '' < '' @ fmt (PyFloat 10))"
    unfolding default_engine_def by (rule can_open_valve_empty[OF d])
  show "(can_open_valve fmt E t = (False, ''System in emergency mode''))
       = (\<exists>v. t ''em'' = Some v \<and> (v = PyInt 1 \<or> v = PyFloat 1))"
    unfolding can_open_valve_emergency_iff py_eq_one
    by (cases "t ''em''") (simp_all add: dict_get_def)
  show "can_open_valve fmt E t \<noteq> (False, ''System in emergency mode'')" if "t ''em'' = None"
    unfolding can_open_valve_emergency_iff using that by (simp add: dict_get_def py_eq_def)
next
  assume a: "\<not> py_gt (PyInt 0) m \<and> \<not> py_gt (PyInt 0) c"
  then show "validate_telemetry fmt (RulesEngine m c) Map.empty = (True, [])"
    by (simp add: validate_telemetry_empty)
  from a show "can_open_valve fmt (RulesEngine m c) Map.empty =
            (False, ''Source concentration too low: '' @ fmt (PyInt 0) @ '' < ''
                      @ fmt (PyFloat 10))"
    by (intro can_open_valve_empty) simp_all
qed

theorem missing_metrics_read_as_zero_witness:
  "(\<forall>fmt. validate_telemetry fmt (RulesEngine (PyFloat 6.0) (PyFloat 500.0)) Map.empty
            = (True, []))
   \<and> (\<forall>fmt. can_open_valve fmt (RulesEngine (PyFloat 6.0) (PyFloat 500.0)) Map.empty
            = (False, ''Source concentration too low: '' @ fmt (PyInt 0) @ '' < ''
                 @ fmt (PyFloat 10)))
   \<and> (\<forall>fmt. can_open_valve fmt default_engine [''p1'' \<mapsto> PyFloat 3.5]
            \<noteq> (False, ''System in emergency mode''))"
proof (intro conjI allI)
  fix fmt :: "pynum \<Rightarrow> string"
  have h: "\<not> py_gt (PyInt 0) (PyFloat 6.0) \<and> \<not> py_gt (PyInt 0) (PyFloat 500.0)"
    by (simp add: py_gt_def py_lt_def)
  note m = missing_metrics_read_as_zero [of fmt default_engine Map.empty "PyFloat 6.0" "PyFloat 500.0"]
  from m h show "validate_telemetry fmt (RulesEngine (PyFloat 6.0) (PyFloat 500.0)) Map.empty
            = (True, [])"
    by blast
  from m h show "can_open_valve fmt (RulesEngine (PyFloat 6.0) (PyFloat 500.0)) Map.empty
            = (False, ''Source concentration too low: '' @ fmt (PyInt 0) @ '' < ''
                 @ fmt (PyFloat 10))"
    by blast
  have "[''p1'' \<mapsto> PyFloat 3.5] ''em'' = None"
    by simp
  with missing_metrics_read_as_zero [of fmt default_engine "[''p1'' \<mapsto> PyFloat 3.5]"]
  show "can_open_valve fmt default_engine [''p1'' \<mapsto> PyFloat 3.5]
            \<noteq> (False, ''System in emergency mode'')"
    by blast
qed

section \<open>Properties of the serial manager\<close>

lemma wait_response_spec:
  "ReadError \<notin> set ps \<Longrightarrow> \<forall>l \<in> set lr. prefix ''COMMAND_RECEIVED:'' l \<Longrightarrow>
     wait_response ps lr =
       send_command_spec (lr @ filter (\<lambda>l. l \<noteq> []) (map strip (lines_of ps)))"
proof (induction ps lr rule: wait_response.induct)
  case (1 lines_received)
  then have "filter (\<lambda>l. \<not> prefix ''COMMAND_RECEIVED:'' l) lines_received = []"
    by (simp add: filter_empty_conv)
  then show ?case by (simp add: send_command_spec_def)
next
  case (2 rest lines_received)
  then show ?case by simp
next
  case (3 rest lines_received)
  then show ?case by simp
next
  case (4 raw rest lines_received)
  have f: "filter (\<lambda>l. \<not> prefix ''COMMAND_RECEIVED:'' l) lines_received = []"
    using 4(4) by (simp add: filter_empty_conv)
  show ?case
  proof (cases "strip raw = []")
    case True
    with 4 show ?thesis by simp
  next
    case False
    show ?thesis
    proof (cases "prefix ''COMMAND_RECEIVED:'' (strip raw)")
      case True
      with False 4 show ?thesis by simp
    next
      case e: False
      with False f show ?thesis by (simp add: send_command_spec_def)
    qed
  qed
qed

lemma send_command_connected:
  "is_connected self \<Longrightarrow> \<not> write_raises dev \<Longrightarrow>
     fst (send_command self cmd dev) = wait_response (polls dev) []"
  by (simp add: send_command_def is_connected_def Let_def split: option.splits)

text \<open>
  Claim C3, as stated: on every transcript \<open>send_command\<close> returns the first line that is
  not an echo, the last echo when only echoes arrive, and nothing when no line arrives.
  It fails on a transcript with an empty line before the answer: the loop skips a line
  that is empty after \<open>strip\<close>, so the answer is returned, not the empty line.
\<close>

theorem send_command_blank_line_counterexample:
  "fst (send_command open_port ''OPEN'' (answering ['''', ''VALVE_OPENED''])) = Some ''VALVE_OPENED''
   \<and> send_command_spec ['''', ''VALVE_OPENED''] = Some ''''
   \<and> fst (send_command open_port ''OPEN'' (answering ['''', ''VALVE_OPENED'']))
       \<noteq> send_command_spec ['''', ''VALVE_OPENED'']"
proof -
  have a: "fst (send_command open_port ''OPEN'' (answering ['''', ''VALVE_OPENED'']))
             = Some ''VALVE_OPENED''"
    by code_simp
  have b: "send_command_spec ['''', ''VALVE_OPENED''] = Some ''''"
    by code_simp
  show ?thesis unfolding a b by simp
qed

text \<open>
  Claim C3, amended. On a connected port whose \<open>write\<close> and reads do not raise,
  \<open>send_command\<close> strips every text it reads, skips those that are empty after \<open>strip\<close>
  and the \<open>COMMAND_RECEIVED\<close> echoes, and returns the first remaining line; when nothing
  remains it returns the last echo read, and nothing when no non-empty line was read.
  The three transcripts of the claim give \<open>VALVE_OPENED\<close>, the echo, and nothing.
\<close>

theorem send_command_skips_blank_and_echo:
  "(is_connected self \<and> \<not> write_raises dev \<and> ReadError \<notin> set (polls dev) \<longrightarrow>
      fst (send_command self cmd dev) =
        send_command_spec (filter (\<lambda>l. l \<noteq> []) (map strip (lines_of (polls dev)))))
   \<and> fst (send_command open_port ''OPEN'' (answering [''COMMAND_RECEIVED:OPEN'', ''VALVE_OPENED'']))
       = Some ''VALVE_OPENED''
   \<and> fst (send_command open_port ''OPEN'' (answering [''COMMAND_RECEIVED:OPEN'']))
       = Some ''COMMAND_RECEIVED:OPEN''
   \<and> fst (send_command open_port ''OPEN'' (answering [])) = None"
proof (intro conjI impI)
  assume "is_connected self \<and> \<not> write_raises dev \<and> ReadError \<notin> set (polls dev)"
  then show "fst (send_command self cmd dev) =
        send_command_spec (filter (\<lambda>l. l \<noteq> []) (map strip (lines_of (polls dev))))"
    using wait_response_spec [of "polls dev" "[]"] by (simp add: send_command_connected)
next
  show "fst (send_command open_port ''OPEN'' (answering [''COMMAND_RECEIVED:OPEN'', ''VALVE_OPENED'']))
       = Some ''VALVE_OPENED''"
    by code_simp
  show "fst (send_command open_port ''OPEN'' (answering [''COMMAND_RECEIVED:OPEN'']))
       = Some ''COMMAND_RECEIVED:OPEN''"
    by code_simp
  show "fst (send_command open_port ''OPEN'' (answering [])) = None"
    by code_simp
qed

theorem send_command_skips_blank_and_echo_witness:
  "fst (send_command open_port ''OPEN'' noisy_device) = Some ''VALVE_OPENED''"
proof -
  have h: "is_connected open_port \<and> \<not> write_raises noisy_device
           \<and> ReadError \<notin> set (polls noisy_device)"
    by (simp add: is_connected_def open_port_def noisy_device_def)
  have e: "send_command_spec (filter (\<lambda>l. l \<noteq> []) (map strip (lines_of (polls noisy_device))))
             = Some ''VALVE_OPENED''"
    by code_simp
  from send_command_skips_blank_and_echo [of open_port noisy_device "''OPEN''"] h
  have "fst (send_command open_port ''OPEN'' noisy_device) =
          send_command_spec (filter (\<lambda>l. l \<noteq> []) (map strip (lines_of (polls noisy_device))))"
    by blast
  then show ?thesis unfolding e .
qed

lemma parse_telemetry_without_prefix:
  "\<not> prefix ''TELEMETRY:'' line \<Longrightarrow> parse_telemetry json_loads now line = None"
  by (simp add: parse_telemetry_def)

lemma parse_telemetry_decode_error:
  "json_loads (strip (replace ''TELEMETRY:'' [] line)) = None \<Longrightarrow>
     parse_telemetry json_loads now line = None"
  by (simp add: parse_telemetry_def)

lemma parse_telemetry_timestamp:
  "prefix ''TELEMETRY:'' line \<Longrightarrow>
   json_loads (strip (replace ''TELEMETRY:'' [] line)) = Some (JObj items) \<Longrightarrow>
     parse_telemetry json_loads now line =
       Some (JObj (if ''t'' \<in> fst ` set items then items
                   else AList.update ''t'' (JNum (PyInt now)) items))"
  by (simp add: parse_telemetry_def)

text \<open>
  Claim C4 at two lines that carry the marker \<open>TELEMETRY:\<close> twice. \<open>parse_telemetry\<close>
  removes every occurrence of the marker, not the prefix alone. A line that starts with
  the marker twice is parsed as the line that starts with it once, though what follows
  its prefix is not JSON; and a field value that contains the marker reaches the parser
  without it.
\<close>

theorem parse_telemetry_removes_every_marker:
  \<open>parse_telemetry json_loads now ''TELEMETRY:TELEMETRY:{"valve":"OPEN","p1":3.5,"p2":3.2,"c_src":150.0,"c_dst":250.0,"em":0}''
     = parse_telemetry json_loads now ''TELEMETRY:{"valve":"OPEN","p1":3.5,"p2":3.2,"c_src":150.0,"c_dst":250.0,"em":0}''
   \<and> strip_prefix_spec ''TELEMETRY:TELEMETRY:{"valve":"OPEN","p1":3.5,"p2":3.2,"c_src":150.0,"c_dst":250.0,"em":0}''
     = ''TELEMETRY:{"valve":"OPEN","p1":3.5,"p2":3.2,"c_src":150.0,"c_dst":250.0,"em":0}''
   \<and> parse_telemetry json_loads now ''TELEMETRY:{"valve":"TELEMETRY:OPEN"}''
     = parse_telemetry json_loads now ''TELEMETRY:{"valve":"OPEN"}''
   \<and> strip_prefix_spec ''TELEMETRY:{"valve":"TELEMETRY:OPEN"}'' = ''{"valve":"TELEMETRY:OPEN"}''\<close>
proof (intro conjI)
  have a: \<open>strip (replace ''TELEMETRY:'' [] ''TELEMETRY:TELEMETRY:{"valve":"OPEN","p1":3.5,"p2":3.2,"c_src":150.0,"c_dst":250.0,"em":0}'')
             = ''{"valve":"OPEN","p1":3.5,"p2":3.2,"c_src":150.0,"c_dst":250.0,"em":0}''\<close>
    by code_simp
  have b: \<open>strip (replace ''TELEMETRY:'' [] ''TELEMETRY:{"valve":"OPEN","p1":3.5,"p2":3.2,"c_src":150.0,"c_dst":250.0,"em":0}'')
             = ''{"valve":"OPEN","p1":3.5,"p2":3.2,"c_src":150.0,"c_dst":250.0,"em":0}''\<close>
    by code_simp
  have p: \<open>prefix ''TELEMETRY:'' ''TELEMETRY:TELEMETRY:{"valve":"OPEN","p1":3.5,"p2":3.2,"c_src":150.0,"c_dst":250.0,"em":0}''\<close>
    \<open>prefix ''TELEMETRY:'' ''TELEMETRY:{"valve":"OPEN","p1":3.5,"p2":3.2,"c_src":150.0,"c_dst":250.0,"em":0}''\<close>
    by simp_all
  show \<open>parse_telemetry json_loads now ''TELEMETRY:TELEMETRY:{"valve":"OPEN","p1":3.5,"p2":3.2,"c_src":150.0,"c_dst":250.0,"em":0}''
     = parse_telemetry json_loads now ''TELEMETRY:{"valve":"OPEN","p1":3.5,"p2":3.2,"c_src":150.0,"c_dst":250.0,"em":0}''\<close>
    unfolding parse_telemetry_def a b using p by (simp only: not_True_eq_False if_False)
  show \<open>strip_prefix_spec ''TELEMETRY:TELEMETRY:{"valve":"OPEN","p1":3.5,"p2":3.2,"c_src":150.0,"c_dst":250.0,"em":0}''
     = ''TELEMETRY:{"valve":"OPEN","p1":3.5,"p2":3.2,"c_src":150.0,"c_dst":250.0,"em":0}''\<close>
    by code_simp
  have c: \<open>strip (replace ''TELEMETRY:'' [] ''TELEMETRY:{"valve":"TELEMETRY:OPEN"}'')
             = ''{"valve":"OPEN"}''\<close>
    by code_simp
  have d: \<open>strip (replace ''TELEMETRY:'' [] ''TELEMETRY:{"valve":"OPEN"}'') = ''{"valve":"OPEN"}''\<close>
    by code_simp
  have q: \<open>prefix ''TELEMETRY:'' ''TELEMETRY:{"valve":"TELEMETRY:OPEN"}''\<close>
    \<open>prefix ''TELEMETRY:'' ''TELEMETRY:{"valve":"OPEN"}''\<close>
    by simp_all
  show \<open>parse_telemetry json_loads now ''TELEMETRY:{"valve":"TELEMETRY:OPEN"}''
     = parse_telemetry json_loads now ''TELEMETRY:{"valve":"OPEN"}''\<close>
    unfolding parse_telemetry_def c d using q by (simp only: not_True_eq_False if_False)
  show \<open>strip_prefix_spec ''TELEMETRY:{"valve":"TELEMETRY:OPEN"}'' = ''{"valve":"TELEMETRY:OPEN"}''\<close>
    by code_simp
qed

section \<open>Properties of the valve endpoints\<close>











lemmas endpoint_defs = open_valve_def close_valve_def force_open_valve_def reset_emergency_def
  enable_test_mode_def disable_test_mode_def

lemma serial_log_operation: "serial (log_operation w c u res m) = serial w"
  by (simp add: log_operation_def Let_def)

lemma open_valve_not_connected_iff:
  "(fst (open_valve u dev w) = HTTPException 503 ''Arduino not connected'')
     = (\<not> is_connected (serial w))"
  by (cases "send_command (serial w) ''OPEN'' dev") (simp add: open_valve_def Let_def)

lemma close_valve_not_connected_iff:
  "(fst (close_valve u dev w) = HTTPException 503 ''Arduino not connected'')
     = (\<not> is_connected (serial w))"
  by (cases "send_command (serial w) ''CLOSE'' dev") (simp add: close_valve_def Let_def)

lemma force_open_valve_not_connected_iff:
  "(fst (force_open_valve u dev w) = HTTPException 503 ''Arduino not connected'')
     = (\<not> is_connected (serial w))"
  by (cases "send_command (serial w) ''FORCE_OPEN'' dev") (simp add: force_open_valve_def Let_def)

lemma reset_emergency_not_connected_iff:
  "(fst (reset_emergency u dev w) = HTTPException 503 ''Arduino not connected'')
     = (\<not> is_connected (serial w))"
  by (cases "send_command (serial w) ''RESET_EMERGENCY'' dev")
     (simp add: reset_emergency_def Let_def)

lemma enable_test_mode_not_connected_iff:
  "(fst (enable_test_mode u dev w) = HTTPException 503 ''Arduino not connected'')
     = (\<not> is_connected (serial w))"
  by (cases "send_command (serial w) ''TEST_MODE_ON'' dev")
     (simp add: enable_test_mode_def Let_def)

lemma disable_test_mode_not_connected_iff:
  "(fst (disable_test_mode u dev w) = HTTPException 503 ''Arduino not connected'')
     = (\<not> is_connected (serial w))"
  by (cases "send_command (serial w) ''TEST_MODE_OFF'' dev")
     (simp add: disable_test_mode_def Let_def)

lemmas not_connected_iffs = open_valve_not_connected_iff close_valve_not_connected_iff
  force_open_valve_not_connected_iff reset_emergency_not_connected_iff
  enable_test_mode_not_connected_iff disable_test_mode_not_connected_iff

lemma endpoints_serial_unchanged:
  "\<not> is_connected (serial w) \<Longrightarrow> endpoint \<in> set endpoints \<Longrightarrow>
     serial (snd (endpoint u dev w)) = serial w"
  by (auto simp: endpoints_def endpoint_defs serial_log_operation)

text \<open>
  Claim C6. Each of the six command endpoints (open, close, force-open, reset-emergency,
  test mode on and off) raises \<open>HTTPException(503, "Arduino not connected")\<close> exactly when
  the serial manager is not connected. In that case the outcome differs from the
  no-response outcome, the serial manager is left as it was, so nothing has been written
  to the port, and \<open>send_command\<close> itself returns nothing without writing.
\<close>

theorem disconnected_command_fails_fast:
  "(\<forall>endpoint \<in> set endpoints.
      (fst (endpoint u dev w) = HTTPException 503 ''Arduino not connected'')
        = (\<not> is_connected (serial w)))
   \<and> (\<not> is_connected (serial w) \<longrightarrow>
        (\<forall>endpoint \<in> set endpoints.
           fst (endpoint u dev w) = HTTPException 503 ''Arduino not connected''
           \<and> fst (endpoint u dev w) \<noteq> HTTPException 503 ''No response from Arduino''
           \<and> serial (snd (endpoint u dev w)) = serial w)
        \<and> send_command (serial w) cmd dev = (None, serial w))"
proof (intro conjI impI ballI)
  fix endpoint assume "endpoint \<in> set endpoints"
  then show "(fst (endpoint u dev w) = HTTPException 503 ''Arduino not connected'')
        = (\<not> is_connected (serial w))"
    by (auto simp: endpoints_def not_connected_iffs)
next
  fix endpoint assume n: "\<not> is_connected (serial w)" and e: "endpoint \<in> set endpoints"
  then show f: "fst (endpoint u dev w) = HTTPException 503 ''Arduino not connected''"
    by (auto simp: endpoints_def not_connected_iffs)
  show "fst (endpoint u dev w) \<noteq> HTTPException 503 ''No response from Arduino''"
    unfolding f by simp
  from n e show "serial (snd (endpoint u dev w)) = serial w"
    by (rule endpoints_serial_unchanged)
next
  assume "\<not> is_connected (serial w)"
  then show "send_command (serial w) cmd dev = (None, serial w)"
    by (simp add: send_command_def)
qed

theorem disconnected_command_fails_fast_witness:
  "fst (open_valve ''op'' (answering [''VALVE_OPENED'']) offline_world)
     = HTTPException 503 ''Arduino not connected''
   \<and> serial (snd (open_valve ''op'' (answering [''VALVE_OPENED'']) offline_world)) = no_port
   \<and> fst (disable_test_mode ''op'' (answering [''VALVE_OPENED'']) offline_world)
     = HTTPException 503 ''Arduino not connected''
   \<and> send_command (serial offline_world) ''OPEN'' (answering [''VALVE_OPENED'']) = (None, no_port)"
proof -
  have n: "\<not> is_connected (serial offline_world)"
    by (simp add: offline_world_def no_port_def is_connected_def)
  have s: "serial offline_world = no_port"
    by (simp add: offline_world_def)
  have m: "open_valve \<in> set endpoints" "disable_test_mode \<in> set endpoints"
    by (simp_all add: endpoints_def)
  note d = disconnected_command_fails_fast
    [of "''op''" "answering [''VALVE_OPENED'']" offline_world "''OPEN''"]
  from d n have a: "\<forall>endpoint \<in> set endpoints.
      fst (endpoint ''op'' (answering [''VALVE_OPENED'']) offline_world)
        = HTTPException 503 ''Arduino not connected''
      \<and> fst (endpoint ''op'' (answering [''VALVE_OPENED'']) offline_world)
        \<noteq> HTTPException 503 ''No response from Arduino''
      \<and> serial (snd (endpoint ''op'' (answering [''VALVE_OPENED'']) offline_world))
        = serial offline_world"
    by blast
  from d n have b: "send_command (serial offline_world) ''OPEN'' (answering [''VALVE_OPENED''])
      = (None, serial offline_world)"
    by blast
  from a m b show ?thesis unfolding s by blast
qed


section \<open>Properties of the WebSocket manager\<close>

lemma sweep_result:
  "sweep send cs D R = (D \<union> {c \<in> set cs. send c \<noteq> Sent}, R @ filter (\<lambda>c. send c = Sent) cs)"
proof (induction cs arbitrary: D R)
  case Nil
  then show ?case by simp
next
  case (Cons c cs)
  show ?case by (cases "send c") (auto simp: Cons.IH)
qed

lemma broadcast_result:
  assumes "set connections = active_connections self"
  shows "broadcast send connections self =
    (self\<lparr>active_connections := active_connections self - {c. send c \<noteq> Sent}\<rparr>,
     filter (\<lambda>c. send c = Sent) connections)"
proof (cases "active_connections self = {}")
  case True
  with assms show ?thesis by (simp add: broadcast_def)
next
  case False
  have d: "active_connections self - {c \<in> set connections. send c \<noteq> Sent}
             = active_connections self - {c. send c \<noteq> Sent}"
    using assms by auto
  show ?thesis
  proof (cases "{c \<in> set connections. send c \<noteq> Sent} = {}")
    case True
    then have "active_connections self - {c. send c \<noteq> Sent} = active_connections self"
      using assms by auto
    with True False show ?thesis by (simp add: broadcast_def sweep_result)
  next
    case ne: False
    with False d show ?thesis by (simp add: broadcast_def sweep_result)
  qed
qed

text \<open>
  Claim C7. Let \<open>connections\<close> enumerate the registered set, each connection once. After
  \<open>broadcast\<close> the message has been delivered, once, to exactly the registered connections
  whose send did not raise; the registered set has lost exactly those whose send raised;
  and \<open>get_connection_count\<close> returns the former count minus the number of failed
  connections, which is the number of deliveries.
\<close>

theorem broadcast_partial_failure:
  "set connections = active_connections self \<and> distinct connections \<longrightarrow>
     set (snd (broadcast send connections self)) = {c \<in> active_connections self. send c = Sent}
     \<and> distinct (snd (broadcast send connections self))
     \<and> active_connections (fst (broadcast send connections self))
         = active_connections self - {c. send c \<noteq> Sent}
     \<and> get_connection_count (fst (broadcast send connections self))
         = get_connection_count self - card {c \<in> active_connections self. send c \<noteq> Sent}
     \<and> get_connection_count (fst (broadcast send connections self))
         = length (snd (broadcast send connections self))"
proof (intro impI)
  assume a: "set connections = active_connections self \<and> distinct connections"
  then have s: "set connections = active_connections self" and dc: "distinct connections"
    by simp_all
  note b = broadcast_result [OF s, of send]
  have fin: "finite (active_connections self)" using s by (metis List.finite_set)
  have sub: "{c \<in> active_connections self. send c \<noteq> Sent} \<subseteq> active_connections self"
    by auto
  have eq: "active_connections self - {c. send c \<noteq> Sent}
         = active_connections self - {c \<in> active_connections self. send c \<noteq> Sent}"
    by auto
  have cnt: "card (active_connections self - {c. send c \<noteq> Sent})
      = card (active_connections self) - card {c \<in> active_connections self. send c \<noteq> Sent}"
    unfolding eq using fin sub by (simp add: card_Diff_subset finite_subset)
  have keep: "active_connections self - {c. send c \<noteq> Sent}
         = set (filter (\<lambda>c. send c = Sent) connections)"
    using s by auto
  have len: "card (active_connections self - {c. send c \<noteq> Sent})
         = length (filter (\<lambda>c. send c = Sent) connections)"
    unfolding keep using dc distinct_card [of "filter (\<lambda>c. send c = Sent) connections"]
    by (simp only: distinct_filter)
  show "set (snd (broadcast send connections self)) = {c \<in> active_connections self. send c = Sent}
     \<and> distinct (snd (broadcast send connections self))
     \<and> active_connections (fst (broadcast send connections self))
         = active_connections self - {c. send c \<noteq> Sent}
     \<and> get_connection_count (fst (broadcast send connections self))
         = get_connection_count self - card {c \<in> active_connections self. send c \<noteq> Sent}
     \<and> get_connection_count (fst (broadcast send connections self))
         = length (snd (broadcast send connections self))"
    unfolding b using s dc cnt len by (auto simp: get_connection_count_def)
qed

theorem broadcast_partial_failure_witness:
  "set (snd (broadcast second_fails [1, 2, 3] three_connections)) = {1, 3}
   \<and> active_connections (fst (broadcast second_fails [1, 2, 3] three_connections)) = {1, 3}
   \<and> get_connection_count three_connections = 3
   \<and> get_connection_count (fst (broadcast second_fails [1, 2, 3] three_connections)) = 2"
proof -
  have a: "active_connections three_connections = {1, 2, 3}"
    by (auto simp: three_connections_def connect_def)
  have h: "set [1, 2, 3] = active_connections three_connections \<and> distinct [1, 2, 3 :: nat]"
    unfolding a by auto
  have ok: "{c \<in> active_connections three_connections. second_fails c = Sent} = {1, 3}"
    unfolding a by (auto simp: second_fails_def)
  have bad: "{c \<in> active_connections three_connections. second_fails c \<noteq> Sent} = {2}"
    unfolding a by (auto simp: second_fails_def)
  have rest: "active_connections three_connections - {c. second_fails c \<noteq> Sent} = {1, 3}"
    unfolding a by (auto simp: second_fails_def)
  have n: "get_connection_count three_connections = 3"
    unfolding get_connection_count_def a by simp
  note b = broadcast_partial_failure [of "[1, 2, 3]" three_connections second_fails]
  from b h have 1: "set (snd (broadcast second_fails [1, 2, 3] three_connections))
      = {c \<in> active_connections three_connections. second_fails c = Sent}"
    by blast
  from b h have 2: "active_connections (fst (broadcast second_fails [1, 2, 3] three_connections))
      = active_connections three_connections - {c. second_fails c \<noteq> Sent}"
    by blast
  from b h have 3: "get_connection_count (fst (broadcast second_fails [1, 2, 3] three_connections))
      = get_connection_count three_connections
          - card {c \<in> active_connections three_connections. second_fails c \<noteq> Sent}"
    by blast
  show ?thesis unfolding 1 2 3 ok bad rest n by simp
qed

end
